theory Spec2Isabelle
  imports Complex_Main
begin

section \<open>JavaScript values\<close>

text \<open>
  The program is a React component file, \<^verbatim>\<open>src/App.jsx\<close>. Its calculation helpers and
  the mutators of \<^verbatim>\<open>useDataStore\<close> work on plain JavaScript values: numbers, strings
  (the \<^verbatim>\<open>value\<close> of an input element), \<^verbatim>\<open>null\<close> and \<^verbatim>\<open>undefined\<close>.

  Booleans, arrays and nested objects do not reach these functions from the form and are
  not part of the model.

  A number is \<^verbatim>\<open>NaN\<close> or a finite value. Finite values are exact rationals here: the
  rounding of IEEE doubles, overflow to an infinity and the sign of zero are outside this
  model. Equality of \<open>jsnum\<close> is sameness of value, so \<open>NaN = NaN\<close> holds in HOL; the
  source never compares two numbers with \<^verbatim>\<open>===\<close>.
\<close>

datatype jsnum = NaN | Fin rat

datatype jsval = JUndef | JNull | JNum jsnum | JStr string

text \<open>The binary \<^verbatim>\<open>-\<close> and \<^verbatim>\<open>+\<close> on numbers, and \<^verbatim>\<open>Math.max\<close> of two numbers.\<close>

fun js_sub :: "jsnum \<Rightarrow> jsnum \<Rightarrow> jsnum" where
  "js_sub (Fin a) (Fin b) = Fin (a - b)"
| "js_sub _ _ = NaN"

fun js_add :: "jsnum \<Rightarrow> jsnum \<Rightarrow> jsnum" where
  "js_add (Fin a) (Fin b) = Fin (a + b)"
| "js_add _ _ = NaN"

fun Math_max :: "jsnum \<Rightarrow> jsnum \<Rightarrow> jsnum" where
  "Math_max (Fin a) (Fin b) = Fin (max a b)"
| "Math_max _ _ = NaN"

text \<open>
  \<^verbatim>\<open>x || 0\<close> for a number \<open>x\<close>: the falsy numbers are \<^verbatim>\<open>NaN\<close> and zero.
\<close>

fun or_zero :: "jsnum \<Rightarrow> jsnum" where
  "or_zero NaN = Fin 0"
| "or_zero (Fin a) = (if a = 0 then Fin 0 else Fin a)"

text \<open>\<^verbatim>\<open>x == null\<close>: true of \<^verbatim>\<open>null\<close> and \<^verbatim>\<open>undefined\<close> only.\<close>

fun nullish :: "jsval \<Rightarrow> bool" where
  "nullish JUndef = True"
| "nullish JNull = True"
| "nullish _ = False"

text \<open>\<^verbatim>\<open>x ?? d\<close>.\<close>

definition nullish_or :: "jsval \<Rightarrow> jsval \<Rightarrow> jsval" where
  "nullish_or x d = (if nullish x then d else x)"

subsection \<open>String to number\<close>

text \<open>
  A string is a sequence of code units below 256; the inputs of the form deliver ASCII.

  \<^verbatim>\<open>Number(s)\<close> for a string: white space is trimmed, the empty string is \<open>0\<close>, an
  unsigned literal with the prefix \<^verbatim>\<open>0x\<close>, \<^verbatim>\<open>0o\<close> or \<^verbatim>\<open>0b\<close> is its integer, a
  decimal literal (sign, digits, fraction, exponent) is its value, anything else is
  \<^verbatim>\<open>NaN\<close>. As \<open>jsnum\<close> has no infinity, the literal \<^verbatim>\<open>Infinity\<close> is not read (it gives
  \<^verbatim>\<open>NaN\<close> here) and a literal beyond the range of a double keeps its value. The general
  theorems below speak of \<open>Number v\<close> and hold whatever strings are numeric; only the
  evaluations of the examples read the digits of \<^verbatim>\<open>180\<close>, \<^verbatim>\<open>25\<close>, \<^verbatim>\<open>10\<close> and
  \<^verbatim>\<open>abc\<close>.
\<close>

definition is_ws :: "char \<Rightarrow> bool" where
  "is_ws c =
     (c \<in> set [CHR '' '', CHR 0x09, CHR 0x0A, CHR 0x0B, CHR 0x0C, CHR 0x0D, CHR 0xA0])"

definition is_digit :: "char \<Rightarrow> bool" where
  "is_digit c = (c \<in> set ''0123456789'')"

definition digit_val :: "char \<Rightarrow> nat" where
  "digit_val c = of_char c - of_char CHR ''0''"

definition digits_val :: "string \<Rightarrow> nat" where
  "digits_val s = foldl (\<lambda>n c. 10 * n + digit_val c) 0 s"

definition trim :: "string \<Rightarrow> string" where
  "trim s = rev (dropWhile is_ws (rev (dropWhile is_ws s)))"

text \<open>
  The literals with a radix prefix: \<^verbatim>\<open>0x\<close>, \<^verbatim>\<open>0o\<close> or \<^verbatim>\<open>0b\<close> (in either case) and at
  least one digit of that radix, with no sign.
\<close>

definition radix_digit :: "char \<Rightarrow> nat option" where
  "radix_digit c =
     (if is_digit c then Some (digit_val c)
      else if c \<in> set ''abcdef'' then Some (of_char c - of_char CHR ''a'' + 10)
      else if c \<in> set ''ABCDEF'' then Some (of_char c - of_char CHR ''A'' + 10)
      else None)"

fun radix_val :: "nat \<Rightarrow> nat \<Rightarrow> string \<Rightarrow> nat option" where
  "radix_val b n [] = Some n"
| "radix_val b n (c # cs) =
     (case radix_digit c of
        None \<Rightarrow> None
      | Some d \<Rightarrow> if d < b then radix_val b (b * n + d) cs else None)"

definition parse_radix :: "string \<Rightarrow> nat option" where
  "parse_radix t =
     (case t of
        c0 # c1 # r \<Rightarrow>
          if c0 = CHR ''0'' \<and> r \<noteq> [] then
            (if c1 = CHR ''x'' \<or> c1 = CHR ''X'' then radix_val 16 0 r
             else if c1 = CHR ''o'' \<or> c1 = CHR ''O'' then radix_val 8 0 r
             else if c1 = CHR ''b'' \<or> c1 = CHR ''B'' then radix_val 2 0 r
             else None)
          else None
      | _ \<Rightarrow> None)"

text \<open>An unsigned mantissa: digits, optionally a point and digits, not both parts empty.\<close>

definition parse_mantissa :: "string \<Rightarrow> rat option" where
  "parse_mantissa s =
     (let ip = takeWhile is_digit s; rest = dropWhile is_digit s in
      case rest of
        [] \<Rightarrow> if ip = [] then None else Some (of_nat (digits_val ip))
      | c # fp \<Rightarrow>
          if c = CHR ''.'' \<and> list_all is_digit fp \<and> (ip \<noteq> [] \<or> fp \<noteq> [])
          then Some (of_nat (digits_val ip) + of_nat (digits_val fp) / 10 ^ length fp)
          else None)"

text \<open>An exponent part after \<^verbatim>\<open>e\<close>: an optional sign and at least one digit.\<close>

definition parse_exponent :: "string \<Rightarrow> int option" where
  "parse_exponent s =
     (case s of
        [] \<Rightarrow> None
      | c # r \<Rightarrow>
          if c = CHR ''-'' then
            (if r \<noteq> [] \<and> list_all is_digit r then Some (- int (digits_val r)) else None)
          else if c = CHR ''+'' then
            (if r \<noteq> [] \<and> list_all is_digit r then Some (int (digits_val r)) else None)
          else if list_all is_digit s then Some (int (digits_val s)) else None)"

definition is_e :: "char \<Rightarrow> bool" where
  "is_e c = (c = CHR ''e'' \<or> c = CHR ''E'')"

definition parse_unsigned :: "string \<Rightarrow> rat option" where
  "parse_unsigned s =
     (let ms = takeWhile (\<lambda>c. \<not> is_e c) s; rest = dropWhile (\<lambda>c. \<not> is_e c) s in
      case parse_mantissa ms of
        None \<Rightarrow> None
      | Some q \<Rightarrow>
          (case rest of
             [] \<Rightarrow> Some q
           | _ # es \<Rightarrow>
               (case parse_exponent es of
                  None \<Rightarrow> None
                | Some k \<Rightarrow> Some (if 0 \<le> k then q * 10 ^ nat k else q / 10 ^ nat (- k)))))"

definition StringToNumber :: "string \<Rightarrow> jsnum" where
  "StringToNumber s =
     (let t = trim s in
      case t of
        [] \<Rightarrow> Fin 0
      | c # r \<Rightarrow>
          (case parse_radix t of
             Some n \<Rightarrow> Fin (of_nat n)
           | None \<Rightarrow>
               if c = CHR ''-'' then
                 (case parse_unsigned r of None \<Rightarrow> NaN | Some q \<Rightarrow> Fin (- q))
               else if c = CHR ''+'' then
                 (case parse_unsigned r of None \<Rightarrow> NaN | Some q \<Rightarrow> Fin q)
               else (case parse_unsigned t of None \<Rightarrow> NaN | Some q \<Rightarrow> Fin q)))"

text \<open>\<^verbatim>\<open>Number(x)\<close>.\<close>

fun Number :: "jsval \<Rightarrow> jsnum" where
  "Number JUndef = NaN"
| "Number JNull = Fin 0"
| "Number (JNum n) = n"
| "Number (JStr s) = StringToNumber s"

section \<open>Calculation helpers\<close>

text \<open>
  \<^verbatim>\<open>
  function calcConsumption(currentState, prevState) {
    if (prevState == null || currentState == null || currentState === "") return 0;
    return Math.max(0, Number(currentState) - Number(prevState));
  }
  \<close>
\<close>

definition calcConsumption :: "jsval \<Rightarrow> jsval \<Rightarrow> jsnum" where
  "calcConsumption currentState prevState =
     (if nullish prevState \<or> nullish currentState \<or> currentState = JStr [] then Fin 0
      else Math_max (Fin 0) (js_sub (Number currentState) (Number prevState)))"

section \<open>Records\<close>

text \<open>
  A record of the store is an object with the fields
  \<^verbatim>\<open>id, year, month, householdState, householdConsumption, carState, carConsumption,
  bojlerConsumption, totalConsumption\<close>. The identifier is a string and the period is a
  pair of integers (the form's selects deliver \<^verbatim>\<open>Number(e.target.value)\<close>); the six
  data fields hold any value, since loaded and imported data is stored as it comes.
\<close>

record entry =
  rec_id :: string
  year :: int
  month :: int
  householdState :: jsval
  householdConsumption :: jsval
  carState :: jsval
  carConsumption :: jsval
  bojlerConsumption :: jsval
  totalConsumption :: jsval

text \<open>\<^verbatim>\<open>r[field]\<close> for a field name given as a string; an unknown name reads \<^verbatim>\<open>undefined\<close>.\<close>

definition get_field :: "string \<Rightarrow> entry \<Rightarrow> jsval" where
  "get_field f r =
     (if f = ''id'' then JStr (rec_id r)
      else if f = ''year'' then JNum (Fin (of_int (year r)))
      else if f = ''month'' then JNum (Fin (of_int (month r)))
      else if f = ''householdState'' then householdState r
      else if f = ''householdConsumption'' then householdConsumption r
      else if f = ''carState'' then carState r
      else if f = ''carConsumption'' then carConsumption r
      else if f = ''bojlerConsumption'' then bojlerConsumption r
      else if f = ''totalConsumption'' then totalConsumption r
      else JUndef)"

text \<open>
  The form object \<^verbatim>\<open>fd\<close> handed to the mutators (\<^verbatim>\<open>BLANK()\<close> with the edited keys).
\<close>

record form_data =
  fd_year :: int
  fd_month :: int
  fd_householdState :: jsval
  fd_householdConsumptionOverride :: jsval
  fd_carState :: jsval
  fd_carConsumptionOverride :: jsval
  fd_bojlerConsumption :: jsval

subsection \<open>Sorting\<close>

text \<open>
  \<^verbatim>\<open>Array.prototype.sort\<close> with a comparator is a stable sort: an element \<open>a\<close> is placed
  before \<open>b\<close> when \<open>cmp a b \<le> 0\<close>, and elements that compare equal keep their order.
  Insertion from the right end computes that permutation.
\<close>

fun insert_sorted :: "('a \<Rightarrow> 'a \<Rightarrow> int) \<Rightarrow> 'a \<Rightarrow> 'a list \<Rightarrow> 'a list" where
  "insert_sorted cmp x [] = [x]"
| "insert_sorted cmp x (y # ys) =
     (if cmp x y \<le> 0 then x # y # ys else y # insert_sorted cmp x ys)"

definition array_sort :: "('a \<Rightarrow> 'a \<Rightarrow> int) \<Rightarrow> 'a list \<Rightarrow> 'a list" where
  "array_sort cmp xs = foldr (insert_sorted cmp) xs []"

text \<open>\<^verbatim>\<open>(a, b) => a.year !== b.year ? a.year - b.year : a.month - b.month\<close>\<close>

definition by_period :: "entry \<Rightarrow> entry \<Rightarrow> int" where
  "by_period a b = (if year a \<noteq> year b then year a - year b else month a - month b)"

subsection \<open>The previous reading\<close>

text \<open>
  \<^verbatim>\<open>
  function getPreviousReading(records, year, month, stateField, excludeId = null) {
    const sorted = [...records]
      .filter(r => r.id !== excludeId)
      .sort((a, b) => a.year !== b.year ? a.year - b.year : a.month - b.month);
    const prev = sorted.filter(r =>
      r.year < year || (r.year === year && r.month < month)
    );
    return prev.length > 0 ? prev[prev.length - 1][stateField] : null;
  }
  \<close>
  The excluded identifier is \<open>None\<close> for \<^verbatim>\<open>null\<close>, which no record's string equals.
\<close>

definition getPreviousReading ::
  "entry list \<Rightarrow> int \<Rightarrow> int \<Rightarrow> string \<Rightarrow> string option \<Rightarrow> jsval" where
  "getPreviousReading records y m stateField excludeId =
     (let srt = array_sort by_period (filter (\<lambda>r. Some (rec_id r) \<noteq> excludeId) records);
          prev = filter (\<lambda>r. year r < y \<or> (year r = y \<and> month r < m)) srt
      in if length prev > 0 then get_field stateField (prev ! (length prev - 1)) else JNull)"

section \<open>The data store\<close>

text \<open>
  The mutators of \<^verbatim>\<open>useDataStore\<close> read the current \<^verbatim>\<open>records\<close>, build a new array and
  hand it to \<^verbatim>\<open>setRecords\<close> and \<^verbatim>\<open>persist\<close>. Here each takes the array and returns the
  new one; writing to local storage and to the sheet is not part of the model.

  \<^verbatim>\<open>addRecord\<close> returns \<^verbatim>\<open>{ record, merged: true }\<close> after a merge and the new record
  itself after an insert. \<^verbatim>\<open>genId()\<close> is random, so the fresh identifier is an argument.
\<close>

datatype add_result = Merged "entry option" | Inserted entry

definition addRecord :: "entry list \<Rightarrow> form_data \<Rightarrow> string \<Rightarrow> entry list \<times> add_result" where
  "addRecord records fd newId =
     (let y = fd_year fd; m = fd_month fd in
      case find (\<lambda>r. year r = y \<and> month r = m) records of
        Some existing \<Rightarrow>
          (let hState = (if fd_householdState fd \<noteq> JStr [] then fd_householdState fd
                         else householdState existing);
               cState = (if fd_carState fd \<noteq> JStr [] then fd_carState fd
                         else carState existing);
               bojler = (if fd_bojlerConsumption fd \<noteq> JStr [] then fd_bojlerConsumption fd
                         else bojlerConsumption existing);
               prevH = getPreviousReading records y m ''householdState'' (Some (rec_id existing));
               prevC = getPreviousReading records y m ''carState'' (Some (rec_id existing));
               hC = (if \<not> nullish (fd_householdConsumptionOverride fd)
                     then Number (fd_householdConsumptionOverride fd)
                     else calcConsumption hState prevH);
               cC = (if \<not> nullish (fd_carConsumptionOverride fd)
                     then Number (fd_carConsumptionOverride fd)
                     else calcConsumption cState prevC);
               updated = map (\<lambda>r. if rec_id r \<noteq> rec_id existing then r else
                   r\<lparr>householdState := JNum (or_zero (Number hState)),
                     householdConsumption := JNum hC,
                     carState := JNum (or_zero (Number cState)),
                     carConsumption := JNum cC,
                     bojlerConsumption := JNum (or_zero (Number bojler)),
                     totalConsumption := JNum (js_add hC cC)\<rparr>) records
           in (updated, Merged (find (\<lambda>r. rec_id r = rec_id existing) updated)))
      | None \<Rightarrow>
          (let prevH = getPreviousReading records y m ''householdState'' None;
               prevC = getPreviousReading records y m ''carState'' None;
               hC = (if \<not> nullish (fd_householdConsumptionOverride fd)
                     then Number (fd_householdConsumptionOverride fd)
                     else calcConsumption (fd_householdState fd) prevH);
               cC = (if \<not> nullish (fd_carConsumptionOverride fd)
                     then Number (fd_carConsumptionOverride fd)
                     else calcConsumption (fd_carState fd) prevC);
               rec = \<lparr>rec_id = newId, year = y, month = m,
                      householdState = JNum (or_zero (Number (fd_householdState fd))),
                      householdConsumption = JNum hC,
                      carState = JNum (or_zero (Number (fd_carState fd))),
                      carConsumption = JNum cC,
                      bojlerConsumption = JNum (or_zero (Number (fd_bojlerConsumption fd))),
                      totalConsumption = JNum (js_add hC cC)\<rparr>
           in (records @ [rec], Inserted rec)))"

definition updateRecord :: "entry list \<Rightarrow> string \<Rightarrow> form_data \<Rightarrow> entry list" where
  "updateRecord records i fd =
     (let prevH = getPreviousReading records (fd_year fd) (fd_month fd) ''householdState'' (Some i);
          prevC = getPreviousReading records (fd_year fd) (fd_month fd) ''carState'' (Some i);
          hC = (if \<not> nullish (fd_householdConsumptionOverride fd)
                then Number (fd_householdConsumptionOverride fd)
                else calcConsumption (fd_householdState fd) prevH);
          cC = (if \<not> nullish (fd_carConsumptionOverride fd)
                then Number (fd_carConsumptionOverride fd)
                else calcConsumption (fd_carState fd) prevC)
      in map (\<lambda>r. if rec_id r \<noteq> i then r else
            r\<lparr>year := fd_year fd, month := fd_month fd,
              householdState := JNum (or_zero (Number (fd_householdState fd))),
              householdConsumption := JNum hC,
              carState := JNum (or_zero (Number (fd_carState fd))),
              carConsumption := JNum cC,
              bojlerConsumption := JNum (or_zero (Number (fd_bojlerConsumption fd))),
              totalConsumption := JNum (js_add hC cC)\<rparr>) records)"



section \<open>Chart data\<close>

text \<open>
  The month names, as sequences of UTF-16 code units (several are not ASCII):
  \<^verbatim>\<open>Leden, Unor, Brezen, Duben, Kveten, Cerven, Cervenec, Srpen, Zari, Rijen, Listopad,
  Prosinec\<close> with their diacritics.
\<close>

definition MONTHS_CZ :: "nat list list" where
  "MONTHS_CZ =
     [[76, 101, 100, 101, 110],
      [218, 110, 111, 114],
      [66, 345, 101, 122, 101, 110],
      [68, 117, 98, 101, 110],
      [75, 118, 283, 116, 101, 110],
      [268, 101, 114, 118, 101, 110],
      [268, 101, 114, 118, 101, 110, 101, 99],
      [83, 114, 112, 101, 110],
      [90, 225, 345, 237],
      [344, 237, 106, 101, 110],
      [76, 105, 115, 116, 111, 112, 97, 100],
      [80, 114, 111, 115, 105, 110, 101, 99]]"

definition YEARS :: "int list" where
  "YEARS = [2023, 2024, 2025, 2026, 2027, 2028, 2029, 2030]"

text \<open>\<^verbatim>\<open>String(n)\<close> for an integer: its decimal digits, with a minus sign when negative.\<close>

definition digit_char :: "nat \<Rightarrow> char" where
  "digit_char d = ''0123456789'' ! d"

fun digits_of :: "nat \<Rightarrow> string" where
  "digits_of n =
     (if n < 10 then [digit_char n]
      else digits_of (n div 10) @ [digit_char (n mod 10)])"

declare digits_of.simps [simp del]

definition String_of_int :: "int \<Rightarrow> string" where
  "String_of_int i = (if i < 0 then CHR ''-'' # digits_of (nat (- i)) else digits_of (nat i))"

text \<open>
  \<^verbatim>\<open>sort()\<close> without a comparator orders the elements by their strings, code unit by
  code unit.
\<close>

fun str_less :: "string \<Rightarrow> string \<Rightarrow> bool" where
  "str_less [] [] = False"
| "str_less [] (y # ys) = True"
| "str_less (x # xs) [] = False"
| "str_less (x # xs) (y # ys) =
     ((of_char x :: nat) < of_char y \<or> (x = y \<and> str_less xs ys))"

definition default_compare :: "int \<Rightarrow> int \<Rightarrow> int" where
  "default_compare a b =
     (if str_less (String_of_int a) (String_of_int b) then - 1
      else if str_less (String_of_int b) (String_of_int a) then 1 else 0)"

text \<open>\<^verbatim>\<open>[...new Set(xs)]\<close>: the distinct elements in the order of their first occurrence.\<close>

definition Set_values :: "'a list \<Rightarrow> 'a list" where
  "Set_values xs = foldl (\<lambda>acc x. if x \<in> set acc then acc else acc @ [x]) [] xs"

text \<open>
  \<^verbatim>\<open>
  function prepareMonthly(records, field) {
    const years = [...new Set(records.map(r => r.year))].sort().slice(-2);
    return MONTHS_CZ.map((name, i) => {
      const row = { month: name.slice(0, 3) };
      years.forEach(y => {
        const f = records.find(r => r.year===y && r.month===i+1);
        row[String(y)] = f ? (f[field]??0) : undefined;
      });
      return row;
    });
  }
  \<close>
  A row is its label and the year properties in the order they are assigned.
\<close>

record row =
  month_label :: "nat list"
  cells :: "(string \<times> jsval) list"

definition monthly_years :: "entry list \<Rightarrow> int list" where
  "monthly_years records =
     (let ys = array_sort default_compare (Set_values (map year records))
      in drop (length ys - 2) ys)"

definition monthly_cell :: "entry list \<Rightarrow> string \<Rightarrow> int \<Rightarrow> nat \<Rightarrow> jsval" where
  "monthly_cell records field y i =
     (case find (\<lambda>r. year r = y \<and> month r = int i + 1) records of
        Some f \<Rightarrow> nullish_or (get_field field f) (JNum (Fin 0))
      | None \<Rightarrow> JUndef)"

definition prepareMonthly :: "entry list \<Rightarrow> string \<Rightarrow> row list" where
  "prepareMonthly records field =
     (let years = monthly_years records in
      map (\<lambda>(name, i).
             \<lparr>month_label = take 3 name,
              cells = map (\<lambda>y. (String_of_int y, monthly_cell records field y i)) years\<rparr>)
          (zip MONTHS_CZ [0..<length MONTHS_CZ]))"

section \<open>Vocabulary of the specification\<close>

text \<open>
  The chronological order of records by period, and the records the resolver chooses
  from: those whose identifier is not the excluded one and whose period is strictly
  before the target.
\<close>

definition period_le :: "entry \<Rightarrow> entry \<Rightarrow> bool" where
  "period_le a b = (year a < year b \<or> (year a = year b \<and> month a \<le> month b))"

definition candidates :: "entry list \<Rightarrow> int \<Rightarrow> int \<Rightarrow> string option \<Rightarrow> entry set" where
  "candidates records y m excludeId =
     {r \<in> set records.
        Some (rec_id r) \<noteq> excludeId \<and> (year r < y \<or> (year r = y \<and> month r < m))}"

definition period :: "entry \<Rightarrow> int \<times> int" where
  "period r = (year r, month r)"

definition unique_periods :: "entry list \<Rightarrow> bool" where
  "unique_periods records = distinct (map period records)"


text \<open>The record a submission returns, and whether it reports a merge.\<close>

fun result_record :: "add_result \<Rightarrow> entry option" where
  "result_record (Merged r) = r"
| "result_record (Inserted r) = Some r"


text \<open>A plain number: a number that is not \<^verbatim>\<open>NaN\<close>.\<close>

fun plain_number :: "jsval \<Rightarrow> bool" where
  "plain_number (JNum (Fin a)) = True"
| "plain_number _ = False"

text \<open>
  The record the merge path writes in place of a record \<open>r\<close> with the identifier of
  \<open>existing\<close>, and the record the insert path appends: the two object literals of
  \<^verbatim>\<open>addRecord\<close>, named so that the lemmas below can speak of them.
\<close>

definition merged_entry :: "entry list \<Rightarrow> form_data \<Rightarrow> entry \<Rightarrow> entry \<Rightarrow> entry" where
  "merged_entry records fd existing r =
     (let y = fd_year fd; m = fd_month fd;
          hState = (if fd_householdState fd \<noteq> JStr [] then fd_householdState fd
                    else householdState existing);
          cState = (if fd_carState fd \<noteq> JStr [] then fd_carState fd
                    else carState existing);
          bojler = (if fd_bojlerConsumption fd \<noteq> JStr [] then fd_bojlerConsumption fd
                    else bojlerConsumption existing);
          prevH = getPreviousReading records y m ''householdState'' (Some (rec_id existing));
          prevC = getPreviousReading records y m ''carState'' (Some (rec_id existing));
          hC = (if \<not> nullish (fd_householdConsumptionOverride fd)
                then Number (fd_householdConsumptionOverride fd)
                else calcConsumption hState prevH);
          cC = (if \<not> nullish (fd_carConsumptionOverride fd)
                then Number (fd_carConsumptionOverride fd)
                else calcConsumption cState prevC)
      in r\<lparr>householdState := JNum (or_zero (Number hState)),
            householdConsumption := JNum hC,
            carState := JNum (or_zero (Number cState)),
            carConsumption := JNum cC,
            bojlerConsumption := JNum (or_zero (Number bojler)),
            totalConsumption := JNum (js_add hC cC)\<rparr>)"

definition new_entry :: "entry list \<Rightarrow> form_data \<Rightarrow> string \<Rightarrow> entry" where
  "new_entry records fd newId =
     (let y = fd_year fd; m = fd_month fd;
          prevH = getPreviousReading records y m ''householdState'' None;
          prevC = getPreviousReading records y m ''carState'' None;
          hC = (if \<not> nullish (fd_householdConsumptionOverride fd)
                then Number (fd_householdConsumptionOverride fd)
                else calcConsumption (fd_householdState fd) prevH);
          cC = (if \<not> nullish (fd_carConsumptionOverride fd)
                then Number (fd_carConsumptionOverride fd)
                else calcConsumption (fd_carState fd) prevC)
      in \<lparr>rec_id = newId, year = y, month = m,
          householdState = JNum (or_zero (Number (fd_householdState fd))),
          householdConsumption = JNum hC,
          carState = JNum (or_zero (Number (fd_carState fd))),
          carConsumption = JNum cC,
          bojlerConsumption = JNum (or_zero (Number (fd_bojlerConsumption fd))),
          totalConsumption = JNum (js_add hC cC)\<rparr>)"

text \<open>The record \<^verbatim>\<open>updateRecord\<close> writes in place of a record \<open>r\<close> with the given identifier.\<close>

definition updated_entry :: "entry list \<Rightarrow> string \<Rightarrow> form_data \<Rightarrow> entry \<Rightarrow> entry" where
  "updated_entry records i fd r =
     (let prevH = getPreviousReading records (fd_year fd) (fd_month fd) ''householdState'' (Some i);
          prevC = getPreviousReading records (fd_year fd) (fd_month fd) ''carState'' (Some i);
          hC = (if \<not> nullish (fd_householdConsumptionOverride fd)
                then Number (fd_householdConsumptionOverride fd)
                else calcConsumption (fd_householdState fd) prevH);
          cC = (if \<not> nullish (fd_carConsumptionOverride fd)
                then Number (fd_carConsumptionOverride fd)
                else calcConsumption (fd_carState fd) prevC)
      in r\<lparr>year := fd_year fd, month := fd_month fd,
            householdState := JNum (or_zero (Number (fd_householdState fd))),
            householdConsumption := JNum hC,
            carState := JNum (or_zero (Number (fd_carState fd))),
            carConsumption := JNum cC,
            bojlerConsumption := JNum (or_zero (Number (fd_bojlerConsumption fd))),
            totalConsumption := JNum (js_add hC cC)\<rparr>)"


text \<open>
  The data model's meter states: the household and car state of a record are
  non-negative numbers.
\<close>

fun nonneg_number :: "jsval \<Rightarrow> bool" where
  "nonneg_number (JNum (Fin a)) = (0 \<le> a)"
| "nonneg_number _ = False"

definition valid_states :: "entry \<Rightarrow> bool" where
  "valid_states r = (nonneg_number (householdState r) \<and> nonneg_number (carState r))"

text \<open>The two most recent distinct years of a record set, in ascending order.\<close>

definition two_latest_years :: "entry list \<Rightarrow> int list" where
  "two_latest_years records =
     (let ys = sorted_list_of_set (year ` set records) in drop (length ys - 2) ys)"

section \<open>Example data\<close>

text \<open>
  The records and forms of the specification's scenarios: January 2024 with state 100,
  February 2024 with state 150 and consumption 50, and a form that submits February
  again with state 180 and every other input left blank.
\<close>

definition ex_jan :: entry where
  "ex_jan = \<lparr>rec_id = ''a'', year = 2024, month = 1,
     householdState = JNum (Fin 100), householdConsumption = JNum (Fin 0),
     carState = JNum (Fin 0), carConsumption = JNum (Fin 0),
     bojlerConsumption = JNum (Fin 0), totalConsumption = JNum (Fin 0)\<rparr>"

definition ex_feb :: entry where
  "ex_feb = \<lparr>rec_id = ''b'', year = 2024, month = 2,
     householdState = JNum (Fin 150), householdConsumption = JNum (Fin 50),
     carState = JNum (Fin 0), carConsumption = JNum (Fin 0),
     bojlerConsumption = JNum (Fin 60), totalConsumption = JNum (Fin 50)\<rparr>"

definition ex_records :: "entry list" where
  "ex_records = [ex_jan, ex_feb]"

definition fd_blank :: "int \<Rightarrow> int \<Rightarrow> form_data" where
  "fd_blank y m = \<lparr>fd_year = y, fd_month = m,
     fd_householdState = JStr [], fd_householdConsumptionOverride = JNull,
     fd_carState = JStr [], fd_carConsumptionOverride = JNull,
     fd_bojlerConsumption = JStr []\<rparr>"

definition fd_feb_180 :: form_data where
  "fd_feb_180 = (fd_blank 2024 2)\<lparr>fd_householdState := JStr ''180''\<rparr>"

text \<open>
  The form of scenario D, with a manual household consumption of 25 beside the state 999;
  a form whose household state is not numeric; a form that moves a record to January; and
  a record whose total is not the sum of its consumptions.
\<close>

definition fd_override :: form_data where
  "fd_override = (fd_blank 2024 3)\<lparr>fd_householdState := JStr ''999'',
     fd_householdConsumptionOverride := JStr ''25''\<rparr>"

definition fd_feb_abc :: form_data where
  "fd_feb_abc = (fd_blank 2024 2)\<lparr>fd_householdState := JStr ''abc''\<rparr>"

definition fd_to_jan :: form_data where
  "fd_to_jan = (fd_blank 2024 1)\<lparr>fd_householdState := JNum (Fin 150),
     fd_carState := JNum (Fin 0), fd_bojlerConsumption := JNum (Fin 60)\<rparr>"


text \<open>
  A January record with a negative household state, and a form for February that enters
  only the bojler consumption.
\<close>

definition ex_neg_jan :: entry where
  "ex_neg_jan = \<lparr>rec_id = ''a'', year = 2024, month = 1,
     householdState = JNum (Fin (- 5)), householdConsumption = JNum (Fin 0),
     carState = JNum (Fin 0), carConsumption = JNum (Fin 0),
     bojlerConsumption = JNum (Fin 0), totalConsumption = JNum (Fin 0)\<rparr>"

definition fd_feb_bojler :: form_data where
  "fd_feb_bojler = (fd_blank 2024 2)\<lparr>fd_bojlerConsumption := JStr ''10''\<rparr>"

text \<open>Records spanning 2023 and 2024, not in chronological order.\<close>

definition ex_dec_2023 :: entry where
  "ex_dec_2023 = \<lparr>rec_id = ''d'', year = 2023, month = 12,
     householdState = JNum (Fin 40), householdConsumption = JNum (Fin 40),
     carState = JNum (Fin 0), carConsumption = JNum (Fin 0),
     bojlerConsumption = JNum (Fin 0), totalConsumption = JNum (Fin 40)\<rparr>"

definition ex_span :: "entry list" where
  "ex_span = [ex_jan, ex_dec_2023, ex_feb]"



text \<open>Records of the years 999, 2023 and 2024.\<close>

definition ex_jan_999 :: entry where
  "ex_jan_999 = \<lparr>rec_id = ''e'', year = 999, month = 1,
     householdState = JNum (Fin 10), householdConsumption = JNum (Fin 10),
     carState = JNum (Fin 0), carConsumption = JNum (Fin 0),
     bojlerConsumption = JNum (Fin 0), totalConsumption = JNum (Fin 10)\<rparr>"

definition ex_three_years :: "entry list" where
  "ex_three_years = [ex_jan, ex_dec_2023, ex_jan_999]"

section \<open>Properties of the helpers\<close>

subsection \<open>Sorting by period\<close>

lemma set_insert_sorted: "set (insert_sorted cmp x ys) = insert x (set ys)"
  by (induction ys) auto

lemma set_array_sort: "set (array_sort cmp xs) = set xs"
  by (induction xs) (simp_all add: array_sort_def set_insert_sorted)

lemma by_period_le: "(by_period a b \<le> 0) = period_le a b"
  by (auto simp: by_period_def period_le_def)

lemma period_le_refl: "period_le a a"
  by (simp add: period_le_def)

lemma period_le_total: "period_le a b \<or> period_le b a"
  by (auto simp: period_le_def)

lemma period_le_trans: "period_le a b \<Longrightarrow> period_le b c \<Longrightarrow> period_le a c"
  by (auto simp: period_le_def)

lemma sorted_insert_by_period:
  "sorted_wrt period_le ys \<Longrightarrow> sorted_wrt period_le (insert_sorted by_period x ys)"
proof (induction ys)
  case Nil
  show ?case by simp
next
  case (Cons y ys)
  show ?case
  proof (cases "by_period x y \<le> 0")
    case True
    then have xy: "period_le x y" by (simp add: by_period_le)
    have "\<forall>z\<in>set ys. period_le x z"
      using Cons.prems xy by (auto intro: period_le_trans)
    with True xy Cons.prems show ?thesis by simp
  next
    case False
    then have "period_le y x" using period_le_total[of x y] by (simp add: by_period_le)
    with False Cons show ?thesis by (auto simp: set_insert_sorted)
  qed
qed

lemma sorted_array_sort_by_period: "sorted_wrt period_le (array_sort by_period xs)"
  by (induction xs) (simp_all add: array_sort_def sorted_insert_by_period)

lemma sorted_wrt_last:
  "sorted_wrt R xs \<Longrightarrow> x \<in> set xs \<Longrightarrow> (\<And>a. R a a) \<Longrightarrow> R x (last xs)"
  by (induction xs) (auto split: if_splits)

lemma getPreviousReading_prev_set:
  "set (filter (\<lambda>r. year r < y \<or> (year r = y \<and> month r < m))
         (array_sort by_period (filter (\<lambda>r. Some (rec_id r) \<noteq> ex) records)))
   = candidates records y m ex"
  by (auto simp: candidates_def set_array_sort)

subsection \<open>The two paths of a submission\<close>

lemma addRecord_merge_eq:
  assumes "find (\<lambda>r. year r = fd_year fd \<and> month r = fd_month fd) records = Some existing"
  shows "addRecord records fd newId =
    (map (\<lambda>r. if rec_id r \<noteq> rec_id existing then r
               else merged_entry records fd existing r) records,
     Merged (find (\<lambda>r. rec_id r = rec_id existing)
       (map (\<lambda>r. if rec_id r \<noteq> rec_id existing then r
                  else merged_entry records fd existing r) records)))"
  using assms by (simp add: addRecord_def merged_entry_def Let_def cong: if_cong)

lemma addRecord_insert_eq:
  assumes "find (\<lambda>r. year r = fd_year fd \<and> month r = fd_month fd) records = None"
  shows "addRecord records fd newId =
    (records @ [new_entry records fd newId], Inserted (new_entry records fd newId))"
  using assms by (simp add: addRecord_def new_entry_def Let_def)

lemma merged_entry_keeps [simp]:
  "rec_id (merged_entry records fd existing r) = rec_id r"
  "year (merged_entry records fd existing r) = year r"
  "month (merged_entry records fd existing r) = month r"
  by (simp_all add: merged_entry_def Let_def)

lemma new_entry_keys [simp]:
  "rec_id (new_entry records fd newId) = newId"
  "year (new_entry records fd newId) = fd_year fd"
  "month (new_entry records fd newId) = fd_month fd"
  by (simp_all add: new_entry_def Let_def)


lemma plain_number_kept: "plain_number v \<Longrightarrow> JNum (or_zero (Number v)) = v"
  by (cases v rule: plain_number.cases) auto





lemma find_in_merged:
  assumes "existing \<in> set records"
  shows "\<exists>r0 \<in> set records. rec_id r0 = rec_id existing \<and>
     find (\<lambda>r. rec_id r = rec_id existing)
       (map (\<lambda>r. if rec_id r \<noteq> rec_id existing then r
                  else merged_entry rs fd existing r) records)
     = Some (merged_entry rs fd existing r0)"
  using assms
proof (induction records)
  case Nil
  then show ?case by simp
next
  case (Cons a records)
  show ?case
  proof (cases "rec_id a = rec_id existing")
    case True
    then show ?thesis by auto
  next
    case False
    with Cons.prems have "existing \<in> set records" by auto
    with Cons.IH False show ?thesis by auto
  qed
qed

lemma find_Some_mem: "find P xs = Some x \<Longrightarrow> x \<in> set xs"
  by (auto simp: find_Some_iff)

text \<open>
  What a submission returns: on the merge path a record written by \<open>merged_entry\<close>, on
  the insert path the appended record; in both cases a record of the new array.
\<close>

lemma addRecord_result:
  "(\<exists>existing r0. find (\<lambda>r. year r = fd_year fd \<and> month r = fd_month fd) records = Some existing \<and>
       r0 \<in> set records \<and> rec_id r0 = rec_id existing \<and>
       snd (addRecord records fd newId) = Merged (Some (merged_entry records fd existing r0)) \<and>
       merged_entry records fd existing r0 \<in> set (fst (addRecord records fd newId))) \<or>
   (find (\<lambda>r. year r = fd_year fd \<and> month r = fd_month fd) records = None \<and>
       snd (addRecord records fd newId) = Inserted (new_entry records fd newId) \<and>
       new_entry records fd newId \<in> set (fst (addRecord records fd newId)))"
proof (cases "find (\<lambda>r. year r = fd_year fd \<and> month r = fd_month fd) records")
  case None
  then show ?thesis by (simp add: addRecord_insert_eq)
next
  case (Some existing)
  then have "existing \<in> set records" by (rule find_Some_mem)
  from find_in_merged[OF this, of records fd] obtain r0 where
    r0: "r0 \<in> set records" "rec_id r0 = rec_id existing"
      "find (\<lambda>r. rec_id r = rec_id existing)
       (map (\<lambda>r. if rec_id r \<noteq> rec_id existing then r
                  else merged_entry records fd existing r) records)
       = Some (merged_entry records fd existing r0)"
    by blast
  have m: "merged_entry records fd existing r0 \<in> set (fst (addRecord records fd newId))"
    using r0(1,2) by (auto simp: addRecord_merge_eq[OF Some] image_iff intro!: bexI[of _ r0])
  have s: "snd (addRecord records fd newId) = Merged (Some (merged_entry records fd existing r0))"
    by (simp only: addRecord_merge_eq[OF Some] snd_conv r0(3))
  show ?thesis
    using Some r0(1,2) s m by blast
qed

lemma merged_entry_consumption:
  "\<not> nullish (fd_householdConsumptionOverride fd) \<Longrightarrow>
     householdConsumption (merged_entry records fd existing r)
       = JNum (Number (fd_householdConsumptionOverride fd))"
  "\<not> nullish (fd_carConsumptionOverride fd) \<Longrightarrow>
     carConsumption (merged_entry records fd existing r)
       = JNum (Number (fd_carConsumptionOverride fd))"
  by (simp_all add: merged_entry_def Let_def)

lemma new_entry_consumption:
  "\<not> nullish (fd_householdConsumptionOverride fd) \<Longrightarrow>
     householdConsumption (new_entry records fd newId)
       = JNum (Number (fd_householdConsumptionOverride fd))"
  "\<not> nullish (fd_carConsumptionOverride fd) \<Longrightarrow>
     carConsumption (new_entry records fd newId)
       = JNum (Number (fd_carConsumptionOverride fd))"
  by (simp_all add: new_entry_def Let_def)



lemma updateRecord_eq:
  "updateRecord records i fd =
     map (\<lambda>r. if rec_id r \<noteq> i then r else updated_entry records i fd r) records"
  by (simp add: updateRecord_def updated_entry_def Let_def cong: if_cong)

lemma updated_entry_keys [simp]:
  "rec_id (updated_entry records i fd r) = rec_id r"
  "year (updated_entry records i fd r) = fd_year fd"
  "month (updated_entry records i fd r) = fd_month fd"
  by (simp_all add: updated_entry_def Let_def)







lemma plain_or_zero: "plain_number (JNum (or_zero x))"
  by (cases x) auto

lemma merged_entry_states:
  "householdState (merged_entry records fd existing r) =
     JNum (or_zero (Number (if fd_householdState fd \<noteq> JStr [] then fd_householdState fd
                            else householdState existing)))"
  "carState (merged_entry records fd existing r) =
     JNum (or_zero (Number (if fd_carState fd \<noteq> JStr [] then fd_carState fd
                            else carState existing)))"
  "bojlerConsumption (merged_entry records fd existing r) =
     JNum (or_zero (Number (if fd_bojlerConsumption fd \<noteq> JStr [] then fd_bojlerConsumption fd
                            else bojlerConsumption existing)))"
  by (simp_all add: merged_entry_def Let_def)

lemma new_entry_states:
  "householdState (new_entry records fd newId) = JNum (or_zero (Number (fd_householdState fd)))"
  "carState (new_entry records fd newId) = JNum (or_zero (Number (fd_carState fd)))"
  "bojlerConsumption (new_entry records fd newId) =
     JNum (or_zero (Number (fd_bojlerConsumption fd)))"
  by (simp_all add: new_entry_def Let_def)

lemma new_entry_blank_consumption:
  "fd_householdState fd = JStr [] \<Longrightarrow> nullish (fd_householdConsumptionOverride fd) \<Longrightarrow>
     householdConsumption (new_entry records fd newId) = JNum (Fin 0)"
  "fd_carState fd = JStr [] \<Longrightarrow> nullish (fd_carConsumptionOverride fd) \<Longrightarrow>
     carConsumption (new_entry records fd newId) = JNum (Fin 0)"
  by (simp_all add: new_entry_def Let_def calcConsumption_def)

lemma StringToNumber_Nil: "StringToNumber [] = Fin 0"
  by (simp add: StringToNumber_def trim_def)

subsection \<open>Submitting twice\<close>

lemma nonneg_plain: "nonneg_number v \<Longrightarrow> plain_number v"
  by (cases v rule: nonneg_number.cases) auto

lemma or_zero_idem: "or_zero (or_zero x) = or_zero x"
  by (cases x) auto

lemma getPreviousReading_cases:
  "getPreviousReading records y m f ex = JNull \<or>
   (\<exists>r \<in> set records. getPreviousReading records y m f ex = get_field f r)"
proof -
  define prev where "prev = filter (\<lambda>r. year r < y \<or> (year r = y \<and> month r < m))
         (array_sort by_period (filter (\<lambda>r. Some (rec_id r) \<noteq> ex) records))"
  have res: "getPreviousReading records y m f ex =
      (if prev \<noteq> [] then get_field f (last prev) else JNull)"
    by (simp add: getPreviousReading_def prev_def Let_def last_conv_nth)
  have sub: "set prev \<subseteq> set records"
    by (auto simp: prev_def set_array_sort)
  show ?thesis
  proof (cases "prev = []")
    case True
    with res show ?thesis by simp
  next
    case False
    then have "last prev \<in> set records" using sub last_in_set by blast
    with res False show ?thesis by auto
  qed
qed

lemma calc_zero_state:
  assumes "nonneg_number v \<or> v = JNull"
  shows "calcConsumption (JNum (Fin 0)) v = Fin 0"
  using assms by (cases v rule: nonneg_number.cases) (auto simp: calcConsumption_def)

lemma calc_zero_prev:
  assumes "\<forall>r \<in> set records. valid_states r"
  shows "calcConsumption (JNum (Fin 0)) (getPreviousReading records y m ''householdState'' ex) = Fin 0"
    "calcConsumption (JNum (Fin 0)) (getPreviousReading records y m ''carState'' ex) = Fin 0"
proof -
  show "calcConsumption (JNum (Fin 0)) (getPreviousReading records y m ''householdState'' ex) = Fin 0"
    using getPreviousReading_cases [of records y m "''householdState''" ex] assms
    by (intro calc_zero_state) (auto simp: get_field_def valid_states_def)
  show "calcConsumption (JNum (Fin 0)) (getPreviousReading records y m ''carState'' ex) = Fin 0"
    using getPreviousReading_cases [of records y m "''carState''" ex] assms
    by (intro calc_zero_state) (auto simp: get_field_def valid_states_def)
qed

lemma filter_replaced:
  assumes "\<And>r. rec_id (g r) = rec_id r"
  shows "filter (\<lambda>r. rec_id r \<noteq> i) (map (\<lambda>r. if rec_id r \<noteq> i then r else g r) xs)
       = filter (\<lambda>r. rec_id r \<noteq> i) xs"
  by (induction xs) (simp_all add: assms)

lemma prev_after_merge:
  "getPreviousReading (map (\<lambda>r. if rec_id r \<noteq> i then r else merged_entry rs fd e r) xs)
      y m f (Some i)
   = getPreviousReading xs y m f (Some i)"
proof -
  have "filter (\<lambda>r. rec_id r \<noteq> i)
          (map (\<lambda>r. if rec_id r \<noteq> i then r else merged_entry rs fd e r) xs)
        = filter (\<lambda>r. rec_id r \<noteq> i) xs"
    by (rule filter_replaced) simp
  then show ?thesis by (simp add: getPreviousReading_def)
qed

lemma prev_after_insert:
  assumes "newId \<notin> rec_id ` set records" "rec_id n = newId"
  shows "getPreviousReading (records @ [n]) y m f (Some newId)
       = getPreviousReading records y m f None"
proof -
  have "\<forall>r \<in> set records. rec_id r \<noteq> newId"
    using assms(1) by blast
  then have "filter (\<lambda>r. Some (rec_id r) \<noteq> Some newId) (records @ [n]) = records"
    using assms(2) by (simp add: filter_id_conv)
  moreover have "filter (\<lambda>r. Some (rec_id r) \<noteq> None) records = records"
    by simp
  ultimately show ?thesis by (simp only: getPreviousReading_def)
qed

lemma find_map_same:
  assumes "\<And>x. P (g x) = P x"
  shows "find P (map g xs) = map_option g (find P xs)"
  by (induction xs) (simp_all add: assms)

lemma find_snoc:
  "find P xs = None \<Longrightarrow> P x \<Longrightarrow> find P (xs @ [x]) = Some x"
  by (induction xs) (auto split: if_splits)


lemma merged_twice:
  assumes "plain_number (householdState e)" "plain_number (carState e)"
    and prev: "\<And>f. getPreviousReading recs1 (fd_year fd) (fd_month fd) f (Some (rec_id e))
               = getPreviousReading records (fd_year fd) (fd_month fd) f (Some (rec_id e))"
  shows "merged_entry recs1 fd (merged_entry records fd e e) (merged_entry records fd e r)
       = merged_entry records fd e r"
proof -
  have hs: "(if fd_householdState fd \<noteq> JStr [] then fd_householdState fd
             else householdState (merged_entry records fd e e))
          = (if fd_householdState fd \<noteq> JStr [] then fd_householdState fd else householdState e)"
    using assms(1) by (simp add: merged_entry_states plain_number_kept)
  have cs: "(if fd_carState fd \<noteq> JStr [] then fd_carState fd
             else carState (merged_entry records fd e e))
          = (if fd_carState fd \<noteq> JStr [] then fd_carState fd else carState e)"
    using assms(2) by (simp add: merged_entry_states plain_number_kept)
  have bj: "or_zero (Number (if fd_bojlerConsumption fd \<noteq> JStr [] then fd_bojlerConsumption fd
             else bojlerConsumption (merged_entry records fd e e)))
          = or_zero (Number (if fd_bojlerConsumption fd \<noteq> JStr [] then fd_bojlerConsumption fd
             else bojlerConsumption e))"
    by (simp add: merged_entry_states or_zero_idem)
  have "merged_entry recs1 fd (merged_entry records fd e e) x =
        merged_entry records fd e x" for x
    unfolding merged_entry_def [of recs1] Let_def hs cs bj
    by (simp add: prev merged_entry_def Let_def)
  then show ?thesis
    by (simp add: merged_entry_def Let_def)
qed


lemma choose_blank:
  "or_zero (Number (if v \<noteq> JStr [] then v else JNum (or_zero (Number v)))) = or_zero (Number v)"
  by (simp add: or_zero_idem)

lemma calc_blank:
  assumes "calcConsumption (JNum (Fin 0)) p = Fin 0"
  shows "calcConsumption (if v \<noteq> JStr [] then v else JNum (or_zero (Number v))) p
       = calcConsumption v p"
proof (cases "v = JStr []")
  case True
  with assms show ?thesis by (simp add: StringToNumber_Nil calcConsumption_def)
next
  case False
  then show ?thesis by simp
qed

lemma merged_after_insert:
  assumes valid: "\<forall>r \<in> set records. valid_states r"
    and fresh: "newId \<notin> rec_id ` set records"
  shows "merged_entry (records @ [new_entry records fd newId]) fd (new_entry records fd newId)
           (new_entry records fd newId)
       = new_entry records fd newId"
proof -
  define n where "n = new_entry records fd newId"
  have id: "rec_id n = newId" by (simp add: n_def)
  have prev: "getPreviousReading (records @ [n]) (fd_year fd) (fd_month fd) f (Some (rec_id n))
       = getPreviousReading records (fd_year fd) (fd_month fd) f None" for f
    using prev_after_insert [OF fresh id] id by simp
  have hs: "householdState n = JNum (or_zero (Number (fd_householdState fd)))"
    and cs: "carState n = JNum (or_zero (Number (fd_carState fd)))"
    and bj: "bojlerConsumption n = JNum (or_zero (Number (fd_bojlerConsumption fd)))"
    by (simp_all add: n_def new_entry_states)
  have hC: "calcConsumption (if fd_householdState fd \<noteq> JStr [] then fd_householdState fd
                else JNum (or_zero (Number (fd_householdState fd))))
              (getPreviousReading records (fd_year fd) (fd_month fd) ''householdState'' None)
          = calcConsumption (fd_householdState fd)
              (getPreviousReading records (fd_year fd) (fd_month fd) ''householdState'' None)"
    by (rule calc_blank) (rule calc_zero_prev(1) [OF valid])
  have cC: "calcConsumption (if fd_carState fd \<noteq> JStr [] then fd_carState fd
                else JNum (or_zero (Number (fd_carState fd))))
              (getPreviousReading records (fd_year fd) (fd_month fd) ''carState'' None)
          = calcConsumption (fd_carState fd)
              (getPreviousReading records (fd_year fd) (fd_month fd) ''carState'' None)"
    by (rule calc_blank) (rule calc_zero_prev(2) [OF valid])
  have "merged_entry (records @ [n]) fd n n = n"
    unfolding merged_entry_def Let_def prev hs cs bj choose_blank hC cC
    by (simp add: n_def new_entry_def Let_def)
  then show ?thesis by (simp only: n_def)
qed

subsection \<open>The years of the monthly comparison\<close>

lemma String_of_int_YEARS:
  "String_of_int 2023 = ''2023''" "String_of_int 2024 = ''2024''"
  "String_of_int 2025 = ''2025''" "String_of_int 2026 = ''2026''"
  "String_of_int 2027 = ''2027''" "String_of_int 2028 = ''2028''"
  "String_of_int 2029 = ''2029''" "String_of_int 2030 = ''2030''"
  by code_simp+

lemma default_compare_YEARS:
  "\<forall>a \<in> set YEARS. \<forall>b \<in> set YEARS. (default_compare a b \<le> 0) = (a \<le> b)"
  by (simp add: YEARS_def default_compare_def String_of_int_YEARS)

lemma inj_String_of_int_YEARS: "inj_on String_of_int (set YEARS)"
  by (simp add: YEARS_def String_of_int_YEARS)

lemma Set_values_aux:
  "set (foldl (\<lambda>acc x. if x \<in> set acc then acc else acc @ [x]) acc xs) = set acc \<union> set xs"
  "distinct acc \<Longrightarrow> distinct (foldl (\<lambda>acc x. if x \<in> set acc then acc else acc @ [x]) acc xs)"
  by (induction xs arbitrary: acc) auto

lemma set_Set_values: "set (Set_values xs) = set xs"
  by (simp add: Set_values_def Set_values_aux)

lemma distinct_Set_values: "distinct (Set_values xs)"
  by (simp add: Set_values_def Set_values_aux)

lemma insert_sorted_insort:
  "\<forall>y \<in> set ys. (cmp x y \<le> 0) = (x \<le> y) \<Longrightarrow> insert_sorted cmp x ys = insort x ys"
  by (induction ys) auto

lemma array_sort_sort:
  "\<forall>a \<in> set xs. \<forall>b \<in> set xs. (cmp a b \<le> 0) = (a \<le> b) \<Longrightarrow> array_sort cmp xs = sort xs"
proof (induction xs)
  case Nil
  show ?case by (simp add: array_sort_def)
next
  case (Cons x xs)
  then have IH: "array_sort cmp xs = sort xs" by simp
  have "array_sort cmp (x # xs) = insert_sorted cmp x (array_sort cmp xs)"
    by (simp add: array_sort_def)
  also have "\<dots> = insert_sorted cmp x (sort xs)" by (simp only: IH)
  also have "\<dots> = insort x (sort xs)"
    using Cons.prems by (intro insert_sorted_insort) simp
  also have "\<dots> = sort (x # xs)" by (simp add: sort_key_def)
  finally show ?case .
qed

lemma monthly_years_latest:
  assumes "\<forall>r \<in> set records. year r \<in> set YEARS"
  shows "monthly_years records = two_latest_years records"
proof -
  let ?ys = "Set_values (map year records)"
  have sub: "set ?ys \<subseteq> set YEARS"
    using assms by (auto simp: set_Set_values)
  then have "\<forall>a \<in> set ?ys. \<forall>b \<in> set ?ys. (default_compare a b \<le> 0) = (a \<le> b)"
    using default_compare_YEARS by blast
  then have "array_sort default_compare ?ys = sort ?ys"
    by (rule array_sort_sort)
  also have "\<dots> = sorted_list_of_set (set ?ys)"
    using distinct_Set_values [of "map year records"]
    by (simp add: sorted_list_of_set_sort_remdups distinct_remdups_id)
  also have "set ?ys = year ` set records"
    by (simp add: set_Set_values)
  finally show ?thesis
    by (simp add: monthly_years_def two_latest_years_def)
qed

lemma map_zip_index:
  "map (\<lambda>(x, i). F x i) (zip xs [0..<length xs]) = map (\<lambda>i. F (xs ! i) i) [0..<length xs]"
  by (rule nth_equalityI) simp_all

lemma length_MONTHS_CZ: "length MONTHS_CZ = 12"
  by (simp add: MONTHS_CZ_def)

lemma monthly_cell_absent:
  "(monthly_cell records field y i = JUndef) =
     (\<not> (\<exists>r \<in> set records. year r = y \<and> month r = int i + 1))"
proof (cases "find (\<lambda>r. year r = y \<and> month r = int i + 1) records")
  case None
  then have "\<not> (\<exists>r \<in> set records. year r = y \<and> month r = int i + 1)"
    by (auto simp: find_None_iff)
  with None show ?thesis by (simp add: monthly_cell_def)
next
  case (Some f)
  then have "\<exists>r \<in> set records. year r = y \<and> month r = int i + 1"
    by (auto simp: find_Some_iff)
  moreover have "nullish_or (get_field field f) (JNum (Fin 0)) \<noteq> JUndef"
    by (cases "get_field field f") (simp_all add: nullish_or_def)
  ultimately show ?thesis using Some by (simp add: monthly_cell_def)
qed

subsection \<open>Values of the example data\<close>

lemma StringToNumber_25: "StringToNumber ''25'' = Fin 25"
  by code_simp

lemma StringToNumber_999: "StringToNumber ''999'' = Fin 999"
  by code_simp

lemma StringToNumber_abc: "StringToNumber ''abc'' = NaN"
  by code_simp


lemma StringToNumber_180: "StringToNumber ''180'' = Fin 180"
  by code_simp

lemma map_ex_records: "map F ex_records = [F ex_jan, F ex_feb]"
  by (simp add: ex_records_def)

lemma ex_ids: "rec_id ex_jan = ''a''" "rec_id ex_feb = ''b''"
  by (simp_all add: ex_jan_def ex_feb_def)

lemma ex_prev_household:
  "getPreviousReading ex_records 2024 2 ''householdState'' (Some ''b'') = JNum (Fin 100)"
  by (simp add: getPreviousReading_def array_sort_def by_period_def get_field_def
      ex_records_def ex_jan_def ex_feb_def)

lemma ex_prev_car:
  "getPreviousReading ex_records 2024 2 ''carState'' (Some ''b'') = JNum (Fin 0)"
  by (simp add: getPreviousReading_def array_sort_def by_period_def get_field_def
      ex_records_def ex_jan_def ex_feb_def)

lemma ex_find_feb:
  "find (\<lambda>r. year r = fd_year fd_feb_180 \<and> month r = fd_month fd_feb_180) ex_records
     = Some ex_feb"
  by (simp add: ex_records_def ex_jan_def ex_feb_def fd_feb_180_def fd_blank_def)

lemma ex_merged_feb_180:
  "merged_entry ex_records fd_feb_180 ex_feb ex_feb =
     ex_feb\<lparr>householdState := JNum (Fin 180), householdConsumption := JNum (Fin 80),
            totalConsumption := JNum (Fin 80)\<rparr>"
  using ex_prev_household ex_prev_car
  by (simp add: merged_entry_def Let_def fd_feb_180_def fd_blank_def calcConsumption_def
      StringToNumber_180 ex_feb_def)

lemma ex_addRecord_feb_180:
  "addRecord ex_records fd_feb_180 ''n'' =
     ([ex_jan,
       ex_feb\<lparr>householdState := JNum (Fin 180), householdConsumption := JNum (Fin 80),
              totalConsumption := JNum (Fin 80)\<rparr>],
      Merged (Some (ex_feb\<lparr>householdState := JNum (Fin 180),
              householdConsumption := JNum (Fin 80), totalConsumption := JNum (Fin 80)\<rparr>)))"
  by (simp add: addRecord_merge_eq [OF ex_find_feb] map_ex_records ex_ids ex_merged_feb_180)

lemma ex_find_feb_abc:
  "find (\<lambda>r. year r = fd_year fd_feb_abc \<and> month r = fd_month fd_feb_abc) ex_records
     = Some ex_feb"
  by (simp add: ex_records_def ex_jan_def ex_feb_def fd_feb_abc_def fd_blank_def)

lemma ex_merged_feb_abc:
  "merged_entry ex_records fd_feb_abc ex_feb ex_feb =
     ex_feb\<lparr>householdState := JNum (Fin 0), householdConsumption := JNum NaN,
            totalConsumption := JNum NaN\<rparr>"
  using ex_prev_household ex_prev_car
  by (simp add: merged_entry_def Let_def fd_feb_abc_def fd_blank_def calcConsumption_def
      StringToNumber_abc ex_feb_def)

lemma ex_addRecord_feb_abc:
  "addRecord ex_records fd_feb_abc ''n'' =
     ([ex_jan,
       ex_feb\<lparr>householdState := JNum (Fin 0), householdConsumption := JNum NaN,
              totalConsumption := JNum NaN\<rparr>],
      Merged (Some (ex_feb\<lparr>householdState := JNum (Fin 0),
              householdConsumption := JNum NaN, totalConsumption := JNum NaN\<rparr>)))"
  by (simp add: addRecord_merge_eq [OF ex_find_feb_abc] map_ex_records ex_ids ex_merged_feb_abc)

lemma StringToNumber_10: "StringToNumber ''10'' = Fin 10" by code_simp
lemma ex_neg_first:
  "addRecord [ex_neg_jan] fd_feb_bojler ''n'' =
     ([ex_neg_jan,
       \<lparr>rec_id = ''n'', year = 2024, month = 2,
        householdState = JNum (Fin 0), householdConsumption = JNum (Fin 0),
        carState = JNum (Fin 0), carConsumption = JNum (Fin 0),
        bojlerConsumption = JNum (Fin 10), totalConsumption = JNum (Fin 0)\<rparr>],
      Inserted
       \<lparr>rec_id = ''n'', year = 2024, month = 2,
        householdState = JNum (Fin 0), householdConsumption = JNum (Fin 0),
        carState = JNum (Fin 0), carConsumption = JNum (Fin 0),
        bojlerConsumption = JNum (Fin 10), totalConsumption = JNum (Fin 0)\<rparr>)"
  by (simp add: addRecord_def Let_def getPreviousReading_def array_sort_def by_period_def
      get_field_def calcConsumption_def ex_neg_jan_def fd_feb_bojler_def fd_blank_def
      StringToNumber_10 StringToNumber_Nil)
lemma ex_neg_second:
  "addRecord [ex_neg_jan,
       \<lparr>rec_id = ''n'', year = 2024, month = 2,
        householdState = JNum (Fin 0), householdConsumption = JNum (Fin 0),
        carState = JNum (Fin 0), carConsumption = JNum (Fin 0),
        bojlerConsumption = JNum (Fin 10), totalConsumption = JNum (Fin 0)\<rparr>] fd_feb_bojler ''m'' =
     ([ex_neg_jan,
       \<lparr>rec_id = ''n'', year = 2024, month = 2,
        householdState = JNum (Fin 0), householdConsumption = JNum (Fin 5),
        carState = JNum (Fin 0), carConsumption = JNum (Fin 0),
        bojlerConsumption = JNum (Fin 10), totalConsumption = JNum (Fin 5)\<rparr>],
      Merged (Some
       \<lparr>rec_id = ''n'', year = 2024, month = 2,
        householdState = JNum (Fin 0), householdConsumption = JNum (Fin 5),
        carState = JNum (Fin 0), carConsumption = JNum (Fin 0),
        bojlerConsumption = JNum (Fin 10), totalConsumption = JNum (Fin 5)\<rparr>))"
  by (simp add: addRecord_def Let_def getPreviousReading_def array_sort_def by_period_def
      get_field_def calcConsumption_def ex_neg_jan_def fd_feb_bojler_def fd_blank_def
      StringToNumber_10 StringToNumber_Nil)

lemma ex_span_years: "\<forall>r \<in> set ex_span. year r \<in> set YEARS"
  by (simp add: ex_span_def ex_jan_def ex_feb_def ex_dec_2023_def YEARS_def)
lemma ex_span_latest: "two_latest_years ex_span = [2023, 2024]"
proof -
  have "year ` set ex_span = set [2023, 2024]"
    by (auto simp: ex_span_def ex_jan_def ex_feb_def ex_dec_2023_def)
  then have "sorted_list_of_set (year ` set ex_span) = sort (remdups [2023, 2024])"
    by (simp only: sorted_list_of_set_sort_remdups)
  then show ?thesis by (simp add: two_latest_years_def)
qed
lemma ex_span_cells:
  "monthly_cell ex_span ''householdConsumption'' 2023 0 = JUndef"
  "monthly_cell ex_span ''householdConsumption'' 2024 0 = JNum (Fin 0)"
  "monthly_cell ex_span ''householdConsumption'' 2024 1 = JNum (Fin 50)"
  by (simp_all add: monthly_cell_def nullish_or_def get_field_def ex_span_def ex_jan_def ex_feb_def ex_dec_2023_def)






subsection \<open>The monthly comparison over the supported years\<close>

text \<open>
  When every year of the data is one of \<open>YEARS\<close>, the order of the year strings is the
  order of the years, and \<^verbatim>\<open>prepareMonthly\<close> returns twelve rows in calendar order, each
  with one cell for each of the two most recent distinct years under distinct keys. A
  cell is \<^verbatim>\<open>undefined\<close> exactly when no record exists for that year and month;
  otherwise it is the field's value, or 0 when the field is \<^verbatim>\<open>null\<close> or
  \<^verbatim>\<open>undefined\<close>.
\<close>

lemma prepareMonthly_supported_years:
  assumes "\<forall>r \<in> set records. year r \<in> set YEARS"
  shows "prepareMonthly records field =
     map (\<lambda>i. \<lparr>month_label = take 3 (MONTHS_CZ ! i),
               cells = map (\<lambda>y. (String_of_int y, monthly_cell records field y i))
                         (two_latest_years records)\<rparr>) [0..<12] \<and>
   distinct (map String_of_int (two_latest_years records)) \<and>
   (\<forall>y i. (monthly_cell records field y i = JUndef) =
      (\<not> (\<exists>r \<in> set records. year r = y \<and> month r = int i + 1))) \<and>
   (\<forall>y i f. find (\<lambda>r. year r = y \<and> month r = int i + 1) records = Some f \<longrightarrow>
      monthly_cell records field y i = nullish_or (get_field field f) (JNum (Fin 0)))"
proof -
  have rows: "prepareMonthly records field =
     map (\<lambda>i. \<lparr>month_label = take 3 (MONTHS_CZ ! i),
               cells = map (\<lambda>y. (String_of_int y, monthly_cell records field y i))
                         (two_latest_years records)\<rparr>) [0..<12]"
    unfolding prepareMonthly_def Let_def monthly_years_latest [OF assms] map_zip_index
    by (simp only: length_MONTHS_CZ)
  have "set (two_latest_years records) \<subseteq> year ` set records"
    by (auto simp: two_latest_years_def Let_def dest: in_set_dropD)
  then have sub: "set (two_latest_years records) \<subseteq> set YEARS"
    using assms by auto
  have "distinct (two_latest_years records)"
    by (simp add: two_latest_years_def Let_def)
  then have keys: "distinct (map String_of_int (two_latest_years records))"
    using sub inj_String_of_int_YEARS by (simp add: distinct_map inj_on_subset)
  have cell: "monthly_cell records field y i = nullish_or (get_field field f) (JNum (Fin 0))"
    if "find (\<lambda>r. year r = y \<and> month r = int i + 1) records = Some f" for y i f
    using that by (simp add: monthly_cell_def)
  show ?thesis
    using rows keys monthly_cell_absent cell by blast
qed

text \<open>
  Scenario E: over records of December 2023 and January and February 2024 the rows have
  the two columns 2023 and 2024; January 2023 has no record and is \<^verbatim>\<open>undefined\<close>,
  January 2024 has the consumption 0.
\<close>

lemma prepareMonthly_supported_years_example:
  "list_all (\<lambda>r. year r \<in> set YEARS) ex_span \<and>
   two_latest_years ex_span = [2023, 2024] \<and>
   prepareMonthly ex_span ''householdConsumption'' =
     map (\<lambda>i. \<lparr>month_label = take 3 (MONTHS_CZ ! i),
               cells = [(String_of_int 2023, monthly_cell ex_span ''householdConsumption'' 2023 i),
                        (String_of_int 2024, monthly_cell ex_span ''householdConsumption'' 2024 i)]\<rparr>)
         [0..<12] \<and>
   monthly_cell ex_span ''householdConsumption'' 2023 0 = JUndef \<and>
   \<not> (\<exists>r \<in> set ex_span. year r = 2023 \<and> month r = int 0 + 1) \<and>
   monthly_cell ex_span ''householdConsumption'' 2024 0 = JNum (Fin 0)"
proof -
  note t = prepareMonthly_supported_years [OF ex_span_years, of "''householdConsumption''"]
  from t have rows: "prepareMonthly ex_span ''householdConsumption'' =
     map (\<lambda>i. \<lparr>month_label = take 3 (MONTHS_CZ ! i),
               cells = map (\<lambda>y. (String_of_int y, monthly_cell ex_span ''householdConsumption'' y i))
                         (two_latest_years ex_span)\<rparr>) [0..<12]"
    by blast
  from t have absent: "(monthly_cell ex_span ''householdConsumption'' 2023 0 = JUndef) =
      (\<not> (\<exists>r \<in> set ex_span. year r = 2023 \<and> month r = int 0 + 1))"
    by blast
  have a: "list_all (\<lambda>r. year r \<in> set YEARS) ex_span"
    using ex_span_years by (simp only: list_all_iff)
  have r: "prepareMonthly ex_span ''householdConsumption'' =
     map (\<lambda>i. \<lparr>month_label = take 3 (MONTHS_CZ ! i),
               cells = [(String_of_int 2023, monthly_cell ex_span ''householdConsumption'' 2023 i),
                        (String_of_int 2024, monthly_cell ex_span ''householdConsumption'' 2024 i)]\<rparr>)
         [0..<12]"
    using rows by (simp only: ex_span_latest list.map)
  have n: "\<not> (\<exists>r \<in> set ex_span. year r = 2023 \<and> month r = int 0 + 1)"
    using absent ex_span_cells(1) by blast
  from a ex_span_latest r ex_span_cells(1) n ex_span_cells(2) show ?thesis
    by (intro conjI)
qed

subsection \<open>The monthly comparison over the years 999, 2023 and 2024\<close>

lemma String_of_int_999: "String_of_int 999 = ''999''"
  by code_simp

lemma ex_three_years_values: "Set_values (map year ex_three_years) = [2024, 2023, 999]"
  by (simp add: Set_values_def ex_three_years_def ex_jan_def ex_dec_2023_def ex_jan_999_def)

lemma ex_three_years_sorted:
  "array_sort default_compare [2024, 2023, 999] = [2023, 2024, 999]"
  by (simp add: array_sort_def default_compare_def String_of_int_YEARS String_of_int_999)

lemma ex_three_years_monthly: "monthly_years ex_three_years = [2024, 999]"
  by (simp add: monthly_years_def ex_three_years_values ex_three_years_sorted)

lemma ex_three_years_latest: "two_latest_years ex_three_years = [2023, 2024]"
proof -
  have "year ` set ex_three_years = set [999, 2023, 2024]"
    by (auto simp: ex_three_years_def ex_jan_def ex_dec_2023_def ex_jan_999_def)
  then have "sorted_list_of_set (year ` set ex_three_years) = sort (remdups [999, 2023, 2024])"
    by (simp only: sorted_list_of_set_sort_remdups)
  then show ?thesis by (simp add: two_latest_years_def)
qed

lemma ex_three_years_cells:
  "monthly_cell ex_three_years ''householdConsumption'' 2024 0 = JNum (Fin 0)"
  "monthly_cell ex_three_years ''householdConsumption'' 999 0 = JNum (Fin 10)"
  by (simp_all add: monthly_cell_def nullish_or_def get_field_def ex_three_years_def
      ex_jan_def ex_dec_2023_def ex_jan_999_def)

lemma prepareMonthly_nth:
  assumes "i < 12"
  shows "prepareMonthly records field ! i =
     \<lparr>month_label = take 3 (MONTHS_CZ ! i),
      cells = map (\<lambda>y. (String_of_int y, monthly_cell records field y i))
                (monthly_years records)\<rparr>"
  using assms
  unfolding prepareMonthly_def Let_def map_zip_index
  by (simp add: length_MONTHS_CZ)

section \<open>The consumption calculator\<close>

text \<open>
  Claim C2. The calculator returns 0 when the previous state is absent (\<^verbatim>\<open>null\<close> or
  \<^verbatim>\<open>undefined\<close>) or the current state is absent or the empty string; otherwise it returns
  \<^verbatim>\<open>Math.max(0, Number(current) - Number(previous))\<close>. For a valid pair, one whose two
  states are numbers \<open>c\<close> and \<open>p\<close>, the result is the non-negative number
  \<open>max 0 (c - p)\<close>, and it is 0 whenever \<open>c \<le> p\<close>.
\<close>

theorem calcConsumption_rule:
  "(nullish prev \<or> nullish cur \<or> cur = JStr [] \<longrightarrow> calcConsumption cur prev = Fin 0) \<and>
   (\<not> (nullish prev \<or> nullish cur \<or> cur = JStr []) \<longrightarrow>
      calcConsumption cur prev = Math_max (Fin 0) (js_sub (Number cur) (Number prev))) \<and>
   (\<not> (nullish prev \<or> nullish cur \<or> cur = JStr []) \<and> Number cur = Fin c \<and> Number prev = Fin p
      \<longrightarrow> calcConsumption cur prev = Fin (max 0 (c - p))) \<and>
   (Number cur = Fin c \<and> Number prev = Fin p \<longrightarrow>
      (\<exists>v. calcConsumption cur prev = Fin v \<and> 0 \<le> v)) \<and>
   (Number cur = Fin c \<and> Number prev = Fin p \<and> c \<le> p \<longrightarrow> calcConsumption cur prev = Fin 0)"
  by (auto simp: calcConsumption_def max_def)

theorem calcConsumption_rule_witness:
  "\<not> (nullish (JNum (Fin 100)) \<or> nullish (JStr ''180'') \<or> JStr ''180'' = JStr []) \<and>
   Number (JStr ''180'') = Fin 180 \<and> Number (JNum (Fin 100)) = Fin 100 \<and>
   calcConsumption (JStr ''180'') (JNum (Fin 100)) = Fin 80 \<and>
   calcConsumption (JStr ''180'') JNull = Fin 0 \<and>
   calcConsumption (JNum (Fin 100)) (JStr ''180'') = Fin 0"
  using calcConsumption_rule [of "JNum (Fin 100)" "JStr ''180''" 180 100]
    calcConsumption_rule [of JNull "JStr ''180''" 180 0]
    calcConsumption_rule [of "JStr ''180''" "JNum (Fin 100)" 100 180]
    StringToNumber_180
  by simp

section \<open>The merge path\<close>




section \<open>The total consumption\<close>




section \<open>One record per period\<close>



section \<open>The reading chronology resolver\<close>

text \<open>
  Claim C5. For every record set, target period, field name and excluded identifier,
  \<^verbatim>\<open>getPreviousReading\<close> returns \<^verbatim>\<open>null\<close> when no record with another identifier lies
  strictly before the target period; otherwise it returns the field of such a record
  whose period is the latest among them.
\<close>

theorem getPreviousReading_latest:
  "(candidates records y m ex = {} \<longrightarrow> getPreviousReading records y m f ex = JNull) \<and>
   (candidates records y m ex \<noteq> {} \<longrightarrow>
      (\<exists>r \<in> candidates records y m ex.
          getPreviousReading records y m f ex = get_field f r \<and>
          (\<forall>r' \<in> candidates records y m ex. period_le r' r)))"
proof -
  define prev where "prev = filter (\<lambda>r. year r < y \<or> (year r = y \<and> month r < m))
         (array_sort by_period (filter (\<lambda>r. Some (rec_id r) \<noteq> ex) records))"
  have res: "getPreviousReading records y m f ex =
      (if prev \<noteq> [] then get_field f (last prev) else JNull)"
    by (simp add: getPreviousReading_def prev_def Let_def last_conv_nth)
  have cs: "set prev = candidates records y m ex"
    unfolding prev_def by (rule getPreviousReading_prev_set)
  have srt: "sorted_wrt period_le prev"
    unfolding prev_def by (intro sorted_wrt_filter sorted_array_sort_by_period)
  show ?thesis
  proof (cases "prev = []")
    case True
    with res cs show ?thesis by auto
  next
    case False
    then have "last prev \<in> candidates records y m ex"
      using cs last_in_set by blast
    moreover have "\<forall>r' \<in> candidates records y m ex. period_le r' (last prev)"
      using srt cs sorted_wrt_last[of period_le prev] period_le_refl by blast
    ultimately show ?thesis using res False cs by auto
  qed
qed

theorem getPreviousReading_latest_witness:
  "candidates ex_records 2024 3 None = {ex_jan, ex_feb} \<and>
   candidates ex_records 2024 3 (Some ''b'') = {ex_jan} \<and>
   candidates ex_records 2024 1 None = {} \<and>
   getPreviousReading ex_records 2024 3 ''householdState'' None = JNum (Fin 150) \<and>
   getPreviousReading ex_records 2024 3 ''householdState'' (Some ''b'') = JNum (Fin 100) \<and>
   getPreviousReading ex_records 2024 1 ''householdState'' None = JNull"
proof -
  have c1: "candidates ex_records 2024 3 None = {ex_jan, ex_feb}"
    by (auto simp: candidates_def ex_records_def ex_jan_def ex_feb_def)
  have c2: "candidates ex_records 2024 3 (Some ''b'') = {ex_jan}"
    by (auto simp: candidates_def ex_records_def ex_jan_def ex_feb_def)
  have c3: "candidates ex_records 2024 1 None = {}"
    by (auto simp: candidates_def ex_records_def ex_jan_def ex_feb_def)
  have le: "\<not> period_le ex_feb ex_jan"
    by (simp add: period_le_def ex_jan_def ex_feb_def)
  have g1: "getPreviousReading ex_records 2024 3 ''householdState'' None = JNum (Fin 150)"
    using getPreviousReading_latest [of ex_records 2024 3 None "''householdState''"] c1 le
    by (auto simp: get_field_def ex_feb_def)
  have g2: "getPreviousReading ex_records 2024 3 ''householdState'' (Some ''b'') = JNum (Fin 100)"
    using getPreviousReading_latest [of ex_records 2024 3 "Some ''b''" "''householdState''"] c2
    by (auto simp: get_field_def ex_jan_def)
  have g3: "getPreviousReading ex_records 2024 1 ''householdState'' None = JNull"
    using getPreviousReading_latest [of ex_records 2024 1 None "''householdState''"] c3
    by simp
  show ?thesis using c1 c2 c3 g1 g2 g3 by simp
qed

section \<open>Submitting the same form twice\<close>

text \<open>
  Claim C6, as the code has it. When the household and car states on record are
  non-negative numbers and the identifier of a new record is fresh, a second submission
  of the same form leaves the record set as the first submission left it and returns the
  same record, with the merge indicator.
\<close>

theorem submit_idempotent:
  assumes valid: "\<forall>r \<in> set records. valid_states r"
    and fresh: "newId \<notin> rec_id ` set records"
  shows "addRecord (fst (addRecord records fd newId)) fd newId' =
     (fst (addRecord records fd newId),
      Merged (result_record (snd (addRecord records fd newId))))"
proof (cases "find (\<lambda>r. year r = fd_year fd \<and> month r = fd_month fd) records")
  case None
  define n where "n = new_entry records fd newId"
  have first: "addRecord records fd newId = (records @ [n], Inserted n)"
    using None by (simp add: addRecord_insert_eq n_def)
  have found: "find (\<lambda>r. year r = fd_year fd \<and> month r = fd_month fd) (records @ [n]) = Some n"
    using None by (intro find_snoc) (simp_all add: n_def)
  have other: "\<forall>r \<in> set records. rec_id r \<noteq> newId"
    using fresh by blast
  have same: "merged_entry (records @ [n]) fd n n = n"
    unfolding n_def by (rule merged_after_insert [OF valid fresh])
  have upd: "map (\<lambda>r. if rec_id r \<noteq> rec_id n then r
                       else merged_entry (records @ [n]) fd n r) (records @ [n])
      = records @ [n]"
    using other same by (simp add: n_def map_idI)
  have fnd: "find (\<lambda>r. rec_id r = rec_id n) (records @ [n]) = Some n"
    using other by (intro find_snoc) (auto simp: find_None_iff n_def)
  show ?thesis
    by (simp only: first fst_conv snd_conv addRecord_merge_eq [OF found] upd fnd
        result_record.simps)
next
  case (Some e)
  define upd where
    "upd = (\<lambda>r. if rec_id r \<noteq> rec_id e then r else merged_entry records fd e r)"
  define e1 where "e1 = merged_entry records fd e e"
  have first: "addRecord records fd newId =
      (map upd records, Merged (find (\<lambda>r. rec_id r = rec_id e) (map upd records)))"
    unfolding upd_def by (rule addRecord_merge_eq [OF Some])
  have e_in: "e \<in> set records" using Some by (rule find_Some_mem)
  have plain: "plain_number (householdState e)" "plain_number (carState e)"
    using valid e_in by (auto simp: valid_states_def nonneg_plain)
  have "find (\<lambda>r. year r = fd_year fd \<and> month r = fd_month fd) (map upd records)
      = map_option upd (find (\<lambda>r. year r = fd_year fd \<and> month r = fd_month fd) records)"
    by (rule find_map_same) (simp add: upd_def)
  then have found: "find (\<lambda>r. year r = fd_year fd \<and> month r = fd_month fd) (map upd records)
      = Some e1"
    using Some by (simp add: upd_def e1_def)
  have id1: "rec_id e1 = rec_id e" by (simp add: e1_def)
  have prev: "getPreviousReading (map upd records) (fd_year fd) (fd_month fd) f (Some (rec_id e))
       = getPreviousReading records (fd_year fd) (fd_month fd) f (Some (rec_id e))" for f
    unfolding upd_def by (rule prev_after_merge)
  have twice: "merged_entry (map upd records) fd e1 (merged_entry records fd e r)
       = merged_entry records fd e r" for r
    unfolding e1_def by (rule merged_twice [OF plain prev])
  have again: "map (\<lambda>r. if rec_id r \<noteq> rec_id e then r
                         else merged_entry (map upd records) fd e1 r) (map upd records)
      = map upd records"
  proof -
    have "(if rec_id (upd r) \<noteq> rec_id e then upd r
           else merged_entry (map upd records) fd e1 (upd r)) = upd r" for r
    proof (cases "rec_id r = rec_id e")
      case True
      then have u: "upd r = merged_entry records fd e r" by (simp add: upd_def)
      show ?thesis unfolding u by (simp add: True twice)
    next
      case False
      then have u: "upd r = r" by (simp add: upd_def)
      show ?thesis unfolding u using False by simp
    qed
    then show ?thesis by (simp add: comp_def)
  qed
  show ?thesis
    by (simp only: first fst_conv snd_conv addRecord_merge_eq [OF found] again id1
        result_record.simps)
qed

theorem submit_idempotent_witness:
  "list_all valid_states ex_records \<and> ''n'' \<notin> rec_id ` set ex_records \<and>
   addRecord (fst (addRecord ex_records fd_feb_180 ''n'')) fd_feb_180 ''m'' =
     (fst (addRecord ex_records fd_feb_180 ''n''),
      Merged (result_record (snd (addRecord ex_records fd_feb_180 ''n''))))"
proof -
  have v: "\<forall>r \<in> set ex_records. valid_states r"
    by (simp add: ex_records_def ex_jan_def ex_feb_def valid_states_def)
  have f: "''n'' \<notin> rec_id ` set ex_records"
    by (simp add: ex_records_def ex_jan_def ex_feb_def)
  have l: "list_all valid_states ex_records"
    using v by (simp only: list_all_iff)
  from l f submit_idempotent [OF v f, of fd_feb_180 "''m''"] show ?thesis
    by (intro conjI)
qed

text \<open>
  The claim as written fails when an earlier reading is negative, which the number
  input accepts. With January at state -5 on record, a form for February that leaves the
  household state blank inserts a record with household consumption 0; the same form
  submitted again finds that record, reads its stored state 0 as a reading and gives the
  household consumption 5.
\<close>

theorem submit_twice_counterexample:
  "map_option householdConsumption
     (result_record (snd (addRecord [ex_neg_jan] fd_feb_bojler ''n'')))
     = Some (JNum (Fin 0)) \<and>
   map_option householdConsumption
     (result_record (snd (addRecord (fst (addRecord [ex_neg_jan] fd_feb_bojler ''n''))
        fd_feb_bojler ''m'')))
     = Some (JNum (Fin 5))"
  by (simp add: ex_neg_first ex_neg_second)

section \<open>Manual overrides\<close>

text \<open>
  Claim C7. Every submission returns a record, which is in the new record set. When the
  form carries a household consumption override (a value other than \<^verbatim>\<open>null\<close> and
  \<^verbatim>\<open>undefined\<close>), the household consumption of that record is the override coerced by
  \<^verbatim>\<open>Number\<close>, whatever the states are; likewise for the car.
\<close>

theorem override_bypass:
  "\<exists>r. result_record (snd (addRecord records fd newId)) = Some r \<and>
       r \<in> set (fst (addRecord records fd newId)) \<and>
       (\<not> nullish (fd_householdConsumptionOverride fd) \<longrightarrow>
          householdConsumption r = JNum (Number (fd_householdConsumptionOverride fd))) \<and>
       (\<not> nullish (fd_carConsumptionOverride fd) \<longrightarrow>
          carConsumption r = JNum (Number (fd_carConsumptionOverride fd)))"
  using addRecord_result [of fd records newId]
  by (auto simp: merged_entry_consumption new_entry_consumption)

text \<open>Scenario D: the override 25 beside the state 999 gives the consumption 25.\<close>

theorem override_bypass_witness:
  "\<not> nullish (fd_householdConsumptionOverride fd_override) \<and>
   fd_householdState fd_override = JStr ''999'' \<and>
   (\<exists>r. result_record (snd (addRecord ex_records fd_override ''n'')) = Some r \<and>
        r \<in> set (fst (addRecord ex_records fd_override ''n'')) \<and>
        householdConsumption r = JNum (Fin 25))"
proof -
  have n: "\<not> nullish (fd_householdConsumptionOverride fd_override)"
    by (simp add: fd_override_def fd_blank_def)
  have v: "Number (fd_householdConsumptionOverride fd_override) = Fin 25"
    by (simp add: fd_override_def fd_blank_def StringToNumber_25)
  have s: "fd_householdState fd_override = JStr ''999''"
    by (simp add: fd_override_def fd_blank_def)
  show ?thesis
    using override_bypass [of ex_records fd_override "''n''"] n v s by auto
qed

section \<open>The monthly comparison\<close>

text \<open>
  Claim C8. \<^verbatim>\<open>prepareMonthly\<close> should give each row the field's value for the two most
  recent distinct years of the data. It takes the last two years of
  \<^verbatim>\<open>[...new Set(years)].sort()\<close>, and \<^verbatim>\<open>sort()\<close> without a comparator orders numbers by
  their strings, where the table's \<^verbatim>\<open>allYears\<close> sorts with \<^verbatim>\<open>(a, b) => a - b\<close>. Over
  records of the years 999, 2023 and 2024 the two most recent years are 2023 and 2024,
  but the string order is 2023, 2024, 999: the rows carry the columns 2024 and 999, and
  the row of January has no cell for 2023.
\<close>

theorem prepareMonthly_string_sort:
  "two_latest_years ex_three_years = [2023, 2024] \<and>
   monthly_years ex_three_years = [2024, 999] \<and>
   cells (prepareMonthly ex_three_years ''householdConsumption'' ! 0) =
     [(''2024'', JNum (Fin 0)), (''999'', JNum (Fin 10))]"
proof -
  have "cells (prepareMonthly ex_three_years ''householdConsumption'' ! 0) =
     [(''2024'', JNum (Fin 0)), (''999'', JNum (Fin 10))]"
    by (simp add: prepareMonthly_nth ex_three_years_monthly ex_three_years_cells
        String_of_int_YEARS String_of_int_999)
  with ex_three_years_latest ex_three_years_monthly show ?thesis by (intro conjI)
qed

section \<open>Invalid numeric input\<close>

text \<open>
  Claim C9, as the code has it. Every submission returns a record, and its household
  state, car state and bojler consumption are plain numbers. A value that is not numeric
  (\<^verbatim>\<open>Number\<close> gives \<^verbatim>\<open>NaN\<close>) is stored as zero, for each of the three fields. An empty
  input is read as not provided, for each of the three fields: on the merge path the
  field keeps the existing record's value (coerced by \<^verbatim>\<open>Number(v) || 0\<close>), on the insert
  path the field is zero, and a state left empty with no override gives the consumption
  zero there.
\<close>

theorem submit_invalid_input:
  "\<exists>r. result_record (snd (addRecord records fd newId)) = Some r \<and>
     plain_number (householdState r) \<and> plain_number (carState r) \<and>
     plain_number (bojlerConsumption r) \<and>
     (Number (fd_householdState fd) = NaN \<longrightarrow> householdState r = JNum (Fin 0)) \<and>
     (Number (fd_carState fd) = NaN \<longrightarrow> carState r = JNum (Fin 0)) \<and>
     (Number (fd_bojlerConsumption fd) = NaN \<longrightarrow> bojlerConsumption r = JNum (Fin 0)) \<and>
     (\<forall>existing.
        find (\<lambda>r. year r = fd_year fd \<and> month r = fd_month fd) records = Some existing \<longrightarrow>
        (fd_householdState fd = JStr [] \<longrightarrow>
           householdState r = JNum (or_zero (Number (householdState existing)))) \<and>
        (fd_carState fd = JStr [] \<longrightarrow>
           carState r = JNum (or_zero (Number (carState existing)))) \<and>
        (fd_bojlerConsumption fd = JStr [] \<longrightarrow>
           bojlerConsumption r = JNum (or_zero (Number (bojlerConsumption existing))))) \<and>
     (find (\<lambda>r. year r = fd_year fd \<and> month r = fd_month fd) records = None \<longrightarrow>
        (fd_householdState fd = JStr [] \<longrightarrow> householdState r = JNum (Fin 0)) \<and>
        (fd_householdState fd = JStr [] \<and> nullish (fd_householdConsumptionOverride fd) \<longrightarrow>
           householdConsumption r = JNum (Fin 0)) \<and>
        (fd_carState fd = JStr [] \<longrightarrow> carState r = JNum (Fin 0)) \<and>
        (fd_carState fd = JStr [] \<and> nullish (fd_carConsumptionOverride fd) \<longrightarrow>
           carConsumption r = JNum (Fin 0)) \<and>
        (fd_bojlerConsumption fd = JStr [] \<longrightarrow> bojlerConsumption r = JNum (Fin 0)))"
proof (cases "find (\<lambda>r. year r = fd_year fd \<and> month r = fd_month fd) records")
  case None
  then have res: "result_record (snd (addRecord records fd newId))
      = Some (new_entry records fd newId)"
    by (simp add: addRecord_insert_eq)
  show ?thesis
    apply (rule exI [of _ "new_entry records fd newId"])
    using None res
    by (auto simp: new_entry_states new_entry_blank_consumption plain_or_zero
        StringToNumber_Nil)
next
  case (Some existing)
  with addRecord_result [of fd records newId] obtain r0 where
    res: "snd (addRecord records fd newId) = Merged (Some (merged_entry records fd existing r0))"
    by auto
  have nan: "\<And>v w. Number v = NaN \<Longrightarrow> (if v \<noteq> JStr [] then v else w) = v"
    by (auto simp: StringToNumber_Nil)
  show ?thesis
    apply (rule exI [of _ "merged_entry records fd existing r0"])
    using Some res
    by (auto simp: merged_entry_states plain_or_zero nan)
qed

theorem submit_invalid_input_witness:
  "Number (fd_householdState fd_feb_abc) = NaN \<and>
   fd_bojlerConsumption fd_feb_abc = JStr [] \<and>
   find (\<lambda>r. year r = fd_year fd_feb_abc \<and> month r = fd_month fd_feb_abc) ex_records
     = Some ex_feb \<and>
   (\<exists>r. result_record (snd (addRecord ex_records fd_feb_abc ''n'')) = Some r \<and>
      plain_number (householdState r) \<and> plain_number (carState r) \<and>
      plain_number (bojlerConsumption r) \<and>
      householdState r = JNum (Fin 0) \<and>
      bojlerConsumption r = JNum (Fin 60))"
proof -
  have n: "Number (fd_householdState fd_feb_abc) = NaN"
    by (simp add: fd_feb_abc_def fd_blank_def StringToNumber_abc)
  have b: "fd_bojlerConsumption fd_feb_abc = JStr []"
    by (simp add: fd_feb_abc_def fd_blank_def)
  have k: "JNum (or_zero (Number (bojlerConsumption ex_feb))) = JNum (Fin 60)"
    by (simp add: ex_feb_def)
  from submit_invalid_input [of ex_records fd_feb_abc "''n''"] obtain r where
    r: "result_record (snd (addRecord ex_records fd_feb_abc ''n'')) = Some r"
       "plain_number (householdState r)" "plain_number (carState r)"
       "plain_number (bojlerConsumption r)"
       "Number (fd_householdState fd_feb_abc) = NaN \<longrightarrow> householdState r = JNum (Fin 0)"
       "\<forall>existing.
        find (\<lambda>r. year r = fd_year fd_feb_abc \<and> month r = fd_month fd_feb_abc) ex_records
          = Some existing \<longrightarrow>
        (fd_bojlerConsumption fd_feb_abc = JStr [] \<longrightarrow>
           bojlerConsumption r = JNum (or_zero (Number (bojlerConsumption existing))))"
    by blast
  from r(5) n have hs: "householdState r = JNum (Fin 0)" by blast
  from r(6) ex_find_feb_abc b k have bj: "bojlerConsumption r = JNum (Fin 60)" by simp
  from r(1,2,3,4) hs bj have
    "\<exists>r. result_record (snd (addRecord ex_records fd_feb_abc ''n'')) = Some r \<and>
      plain_number (householdState r) \<and> plain_number (carState r) \<and>
      plain_number (bojlerConsumption r) \<and>
      householdState r = JNum (Fin 0) \<and>
      bojlerConsumption r = JNum (Fin 60)"
    by blast
  with n b ex_find_feb_abc show ?thesis by (intro conjI)
qed

text \<open>
  The claim as written fails on the merge path. With February on record (state 150,
  bojler 60) and January before it (state 100): an empty bojler input leaves the bojler
  consumption 60, not zero; the household state \<^verbatim>\<open>abc\<close> is not read as "not provided",
  it replaces 150 by 0; and the household consumption stored with it is \<^verbatim>\<open>NaN\<close>.
\<close>

theorem invalid_input_counterexample:
  "fd_bojlerConsumption fd_feb_180 = JStr [] \<and>
   map_option bojlerConsumption (result_record (snd (addRecord ex_records fd_feb_180 ''n'')))
     = Some (JNum (Fin 60)) \<and>
   fd_householdState fd_feb_abc = JStr ''abc'' \<and>
   Number (JStr ''abc'') = NaN \<and>
   householdState ex_feb = JNum (Fin 150) \<and>
   map_option householdState (result_record (snd (addRecord ex_records fd_feb_abc ''n'')))
     = Some (JNum (Fin 0)) \<and>
   map_option householdConsumption (result_record (snd (addRecord ex_records fd_feb_abc ''n'')))
     = Some (JNum NaN)"
proof -
  have a: "fd_bojlerConsumption fd_feb_180 = JStr []"
    by (simp add: fd_feb_180_def fd_blank_def)
  have b: "map_option bojlerConsumption
      (result_record (snd (addRecord ex_records fd_feb_180 ''n''))) = Some (JNum (Fin 60))"
    by (simp add: ex_addRecord_feb_180 ex_feb_def)
  have c: "fd_householdState fd_feb_abc = JStr ''abc''"
    by (simp add: fd_feb_abc_def fd_blank_def)
  have d: "Number (JStr ''abc'') = NaN"
    by (simp add: StringToNumber_abc)
  have e: "householdState ex_feb = JNum (Fin 150)"
    by (simp add: ex_feb_def)
  have f: "map_option householdState
      (result_record (snd (addRecord ex_records fd_feb_abc ''n''))) = Some (JNum (Fin 0))"
    by (simp add: ex_addRecord_feb_abc)
  have g: "map_option householdConsumption
      (result_record (snd (addRecord ex_records fd_feb_abc ''n''))) = Some (JNum NaN)"
    by (simp add: ex_addRecord_feb_abc)
  from a b c d e f g show ?thesis by (intro conjI)
qed

section \<open>Editing a record's period\<close>

text \<open>
  Claim C10. \<^verbatim>\<open>updateRecord\<close> does not keep periods unique: there is a record set with
  two records of different periods in which moving one record to the other's period
  leaves two records with the same year and month.
\<close>

theorem updateRecord_duplicate_period:
  "\<exists>records i fd. length records = 2 \<and> unique_periods records \<and>
      length (updateRecord records i fd) = 2 \<and>
      \<not> unique_periods (updateRecord records i fd)"
proof -
  have l: "length ex_records = 2"
    by (simp add: ex_records_def)
  have u: "unique_periods ex_records"
    by (simp add: unique_periods_def period_def ex_records_def ex_jan_def ex_feb_def)
  have l': "length (updateRecord ex_records ''b'' fd_to_jan) = 2"
    by (simp add: updateRecord_eq ex_records_def)
  have "map period (updateRecord ex_records ''b'' fd_to_jan) = [(2024, 1), (2024, 1)]"
    by (simp add: updateRecord_eq period_def ex_records_def ex_jan_def ex_feb_def
        fd_to_jan_def fd_blank_def)
  then have d: "\<not> unique_periods (updateRecord ex_records ''b'' fd_to_jan)"
    by (simp add: unique_periods_def)
  from l u l' d show ?thesis by blast
qed

end
